theory Spec2Isabelle
  imports Main "HOL-Library.Word"
begin

section \<open>errcheck.h: fail-fast checked calls with fault injection\<close>

text \<open>
  The header consists of statement macros that are expanded inside an enclosing C
  function. Each macro is embedded as a function from the program state to a control
  outcome: either the enclosing function has executed \<^verbatim>\<open>return v\<close>, or control
  falls through to the next statement.
\<close>

subsection \<open>Types and globals\<close>

text \<open>
  \<^verbatim>\<open>typedef uint8_t err_t;\<close> and \<^verbatim>\<open>#define ERR_FAILURE ((err_t)0xFF)\<close>.
  The outcome of a checked call is a C \<^verbatim>\<open>int\<close>; the macros only compare it with 0.
\<close>

type_synonym err_t = "8 word"
type_synonym c_int = "32 word"

definition ERR_FAILURE :: err_t where
  "ERR_FAILURE = 0xFF"

definition ERR_NONE :: err_t where
  "ERR_NONE = 0"

text \<open>
  The process-wide variables the macros read and write: \<^verbatim>\<open>g_last_error\<close>,
  \<^verbatim>\<open>g_current_error_group\<close> (read by \<^verbatim>\<open>CHECK_SAME\<close>) and
  \<^verbatim>\<open>volatile uint8_t g_inject_error_flag\<close> (runtime injection builds). Everything
  else a called function can touch (hardware, standard output) is the field \<open>world\<close>.
\<close>

record 'w globals =
  g_last_error :: err_t
  g_current_error_group :: err_t
  g_inject_error_flag :: "8 word"
  world :: 'w

text \<open>
  The macro argument \<^verbatim>\<open>call\<close> is an arbitrary C expression: it yields an outcome and
  may change any part of the state. The argument \<^verbatim>\<open>err_flag\<close> is an expression read
  from the state (a constant such as \<^verbatim>\<open>ERR_POWER\<close>, or the variable
  \<^verbatim>\<open>g_current_error_group\<close>).
\<close>

type_synonym 'w call = "'w globals \<Rightarrow> c_int \<times> 'w globals"
type_synonym 'w expr = "'w globals \<Rightarrow> err_t"

datatype 'w flow = Returned err_t "'w globals" | Continue "'w globals"

type_synonym 'w stmt = "'w globals \<Rightarrow> 'w flow"

definition lit :: "err_t \<Rightarrow> 'w expr" where
  "lit e = (\<lambda>s. e)"

fun returned_value :: "'w flow \<Rightarrow> err_t option" where
  "returned_value (Returned v s) = Some v"
| "returned_value (Continue s) = None"

fun flow_state :: "'w flow \<Rightarrow> 'w globals" where
  "flow_state (Returned v s) = s"
| "flow_state (Continue s) = s"

subsection \<open>Core macros\<close>

text \<open>
  \<^verbatim>\<open>#define CHECK(call, err_flag) do { if ((call) == 0) { g_last_error = (err_flag);
  return ERR_FAILURE; } } while (0)\<close>

  The call is evaluated first; \<^verbatim>\<open>err_flag\<close> is read afterwards, in the state the call
  left behind.
\<close>

definition CHECK_std :: "'w call \<Rightarrow> 'w expr \<Rightarrow> 'w stmt" where
  "CHECK_std call err_flag s =
     (case call s of (r, s1) \<Rightarrow>
        if r = 0 then Returned ERR_FAILURE (s1\<lparr>g_last_error := err_flag s1\<rparr>)
        else Continue s1)"

text \<open>
  Under \<^verbatim>\<open>ERRCHECK_ENABLE_RUNTIME_INJECTION\<close> the macro is redefined:

  \<^verbatim>\<open>if ((call) == 0 || g_inject_error_flag == (err_flag)) { g_last_error = (err_flag);
  g_inject_error_flag = 0; return ERR_FAILURE; }\<close>

  The left operand of \<^verbatim>\<open>||\<close> is evaluated first, so the call always runs and the flag
  is compared in the state after the call.
\<close>

definition CHECK_inj :: "'w call \<Rightarrow> 'w expr \<Rightarrow> 'w stmt" where
  "CHECK_inj call err_flag s =
     (case call s of (r, s1) \<Rightarrow>
        if r = 0 \<or> g_inject_error_flag s1 = err_flag s1
        then Returned ERR_FAILURE
               (s1\<lparr>g_last_error := err_flag s1, g_inject_error_flag := 0\<rparr>)
        else Continue s1)"

text \<open>
  Which of the two definitions a translation unit sees is decided by the preprocessor;
  the first argument says whether \<^verbatim>\<open>ERRCHECK_ENABLE_RUNTIME_INJECTION\<close> is defined.
\<close>

definition CHECK :: "bool \<Rightarrow> 'w call \<Rightarrow> 'w expr \<Rightarrow> 'w stmt" where
  "CHECK runtime_injection call err_flag =
     (if runtime_injection then CHECK_inj call err_flag else CHECK_std call err_flag)"

text \<open>\<^verbatim>\<open>#define CHECK_SAME(call) CHECK((call), g_current_error_group)\<close>\<close>

definition CHECK_SAME :: "bool \<Rightarrow> 'w call \<Rightarrow> 'w stmt" where
  "CHECK_SAME runtime_injection call = CHECK runtime_injection call g_current_error_group"

text \<open>
  \<^verbatim>\<open>#define RETURN_ERR(err_flag) do { g_last_error = (err_flag); return ERR_FAILURE; }
  while (0)\<close>
\<close>

definition RETURN_ERR :: "'w expr \<Rightarrow> 'w stmt" where
  "RETURN_ERR err_flag s = Returned ERR_FAILURE (s\<lparr>g_last_error := err_flag s\<rparr>)"

subsection \<open>Enclosing operations\<close>

text \<open>
  The body of an enclosing function is a sequence of statements. A statement that
  returns ends the function; no later statement runs. A body that falls off its last
  statement reaches the function's closing \<^verbatim>\<open>return\<close>, whose value is \<open>final\<close>
  (\<^verbatim>\<open>return ERR_NONE;\<close> in every example).
\<close>

fun run_body :: "'w stmt list \<Rightarrow> 'w globals \<Rightarrow> 'w flow" where
  "run_body [] s = Continue s"
| "run_body (st # rest) s =
     (case st s of
        Returned v s' \<Rightarrow> Returned v s'
      | Continue s' \<Rightarrow> run_body rest s')"

definition operation :: "'w stmt list \<Rightarrow> err_t \<Rightarrow> 'w globals \<Rightarrow> err_t \<times> 'w globals" where
  "operation body final s =
     (case run_body body s of
        Returned v s' \<Rightarrow> (v, s')
      | Continue s' \<Rightarrow> (final, s'))"

subsection \<open>Build-time injection: examples/fault_injection_compile_time.c\<close>

text \<open>
  A macro argument that is an integer constant, as in \<^verbatim>\<open>CHECK(0, ERR_SENSOR)\<close>:
  no function is called and the state is not touched.
\<close>

definition const_outcome :: "c_int \<Rightarrow> 'w call" where
  "const_outcome r s = (r, s)"

text \<open>\<^verbatim>\<open>typedef enum { ERR_NONE = 0, ERR_SENSOR = 1 } err_t;\<close>\<close>

definition ERR_SENSOR :: err_t where
  "ERR_SENSOR = 1"

text \<open>
  \<^verbatim>\<open>#ifdef INJECT_ERR_SENSOR
    #define CHECK_SENSOR(call)  CHECK(0, ERR_SENSOR)
  #else
    #define CHECK_SENSOR(call)  CHECK(call, ERR_SENSOR)
  #endif\<close>

  The second argument says whether \<^verbatim>\<open>INJECT_ERR_SENSOR\<close> is defined in the build.
\<close>

definition CHECK_SENSOR :: "bool \<Rightarrow> bool \<Rightarrow> 'w call \<Rightarrow> 'w stmt" where
  "CHECK_SENSOR runtime_injection inject_err_sensor call =
     (if inject_err_sensor then CHECK runtime_injection (const_outcome 0) (lit ERR_SENSOR)
      else CHECK runtime_injection call (lit ERR_SENSOR))"

text \<open>
  The examples' functions only print and return a constant. Standard output is the list
  of lines written so far (without the trailing newline; the arrow character of some
  messages is written \<open>->\<close>).
\<close>

type_synonym stdout = "string list"

definition printf :: "string \<Rightarrow> stdout globals \<Rightarrow> stdout globals" where
  "printf line s = s\<lparr>world := world s @ [line]\<rparr>"

definition printf_stmt :: "string \<Rightarrow> stdout stmt" where
  "printf_stmt line s = Continue (printf line s)"

definition calibrate_imu :: "stdout call" where
  "calibrate_imu s = (1, printf ''IMU calibration: would normally pass'' s)"

definition init_compile_time :: "bool \<Rightarrow> stdout globals \<Rightarrow> err_t \<times> stdout globals" where
  "init_compile_time inject_err_sensor =
     operation
       [printf_stmt ''Starting initialization with fault injection test...'',
        CHECK_SENSOR False inject_err_sensor calibrate_imu,
        printf_stmt ''IMU calibration successful!'']
       ERR_NONE"

text \<open>
  The globals as the program's initialisers leave them (\<^verbatim>\<open>g_last_error = ERR_NONE\<close>,
  \<^verbatim>\<open>g_inject_error_flag = 0\<close>), with nothing printed yet. A variable an example does
  not declare is 0.
\<close>

definition startup :: "stdout globals" where
  "startup = \<lparr>g_last_error = ERR_NONE, g_current_error_group = 0,
              g_inject_error_flag = 0, world = []\<rparr>"

subsection \<open>Runtime injection: examples/fault_injection_runtime.c\<close>

text \<open>\<^verbatim>\<open>typedef enum { ERR_NONE = 0, ERR_RADIO = 1 } err_t;\<close>\<close>

definition ERR_RADIO :: err_t where
  "ERR_RADIO = 1"

definition radio_start :: "stdout call" where
  "radio_start s = (1, printf ''Radio hardware start -> normally would succeed'' s)"

definition init_runtime :: "stdout globals \<Rightarrow> err_t \<times> stdout globals" where
  "init_runtime =
     operation
       [printf_stmt ''Starting initialization...'',
        CHECK True radio_start (lit ERR_RADIO),
        printf_stmt ''Radio initialized successfully!'']
       ERR_NONE"

subsection \<open>Mixed codes and groups: examples/multiple_errors.c\<close>

text \<open>\<^verbatim>\<open>typedef enum { ERR_NONE = 0, ERR_I2C, ERR_SPI, ERR_UART, ERR_TIMEOUT } err_t;\<close>\<close>

definition ERR_I2C :: err_t where
  "ERR_I2C = 1"

definition ERR_SPI :: err_t where
  "ERR_SPI = 2"

definition ERR_UART :: err_t where
  "ERR_UART = 3"

definition ERR_TIMEOUT :: err_t where
  "ERR_TIMEOUT = 4"

definition i2c_write :: "stdout call" where
  "i2c_write s = (1, printf ''I2C write  -> OK'' s)"

definition i2c_read :: "stdout call" where
  "i2c_read s = (0, printf ''I2C read   -> FAILED'' s)"

definition spi_test :: "stdout call" where
  "spi_test s = (1, printf ''SPI test   -> OK'' s)"

definition uart_init :: "stdout call" where
  "uart_init s = (1, printf ''UART init  -> OK'' s)"

definition bus_init :: "stdout globals \<Rightarrow> err_t \<times> stdout globals" where
  "bus_init =
     operation
       [CHECK_SAME False i2c_write,
        CHECK False i2c_read (lit ERR_I2C),
        CHECK False spi_test (lit ERR_SPI),
        CHECK False uart_init (lit ERR_UART)]
       ERR_NONE"

text \<open>\<^verbatim>\<open>err_t g_current_error_group = ERR_I2C;\<close>\<close>

definition startup_i2c_group :: "stdout globals" where
  "startup_i2c_group = startup\<lparr>g_current_error_group := ERR_I2C\<rparr>"

lemmas example_defs =
  ERR_FAILURE_def ERR_NONE_def ERR_SENSOR_def ERR_RADIO_def ERR_I2C_def ERR_SPI_def
  ERR_UART_def ERR_TIMEOUT_def const_outcome_def lit_def printf_def printf_stmt_def
  calibrate_imu_def radio_start_def i2c_write_def i2c_read_def spi_test_def uart_init_def
  startup_def startup_i2c_group_def

lemmas macro_defs =
  CHECK_def CHECK_std_def CHECK_inj_def CHECK_SAME_def CHECK_SENSOR_def RETURN_ERR_def
  operation_def

subsection \<open>General facts\<close>

lemma run_body_append_Continue:
  "run_body pre s = Continue s0 \<Longrightarrow> run_body (pre @ rest) s = run_body rest s0"
  by (induction pre arbitrary: s) (auto split: flow.splits)

lemma CHECK_failure:
  "fst (call s) = 0 \<Longrightarrow>
   CHECK rt call err s =
     Returned ERR_FAILURE
       (if rt then (snd (call s))\<lparr>g_last_error := err (snd (call s)), g_inject_error_flag := 0\<rparr>
        else (snd (call s))\<lparr>g_last_error := err (snd (call s))\<rparr>)"
  by (cases "call s") (simp add: CHECK_def CHECK_std_def CHECK_inj_def)

lemma CHECK_std_unfold:
  "CHECK False call err s =
     (if fst (call s) = 0
      then Returned ERR_FAILURE ((snd (call s))\<lparr>g_last_error := err (snd (call s))\<rparr>)
      else Continue (snd (call s)))"
  by (cases "call s") (simp add: CHECK_def CHECK_std_def)

lemma CHECK_inj_unfold:
  "CHECK True call err s =
     (if fst (call s) = 0 \<or> g_inject_error_flag (snd (call s)) = err (snd (call s))
      then Returned ERR_FAILURE
             ((snd (call s))\<lparr>g_last_error := err (snd (call s)), g_inject_error_flag := 0\<rparr>)
      else Continue (snd (call s)))"
  by (cases "call s") (simp add: CHECK_def CHECK_inj_def)

lemma CHECK_success:
  "fst (call s) \<noteq> 0 \<Longrightarrow> (rt \<longrightarrow> g_inject_error_flag (snd (call s)) \<noteq> err (snd (call s))) \<Longrightarrow>
   CHECK rt call err s = Continue (snd (call s))"
  by (cases rt) (simp_all add: CHECK_std_unfold CHECK_inj_unfold)

lemma clear_unarmed_flag:
  "g_inject_error_flag s = 0 \<Longrightarrow> s\<lparr>g_last_error := e, g_inject_error_flag := 0\<rparr> = s\<lparr>g_last_error := e\<rparr>"
  by simp

section \<open>Claims\<close>

text \<open>
  C1. A checked call whose real outcome is zero, with site code \<open>e\<close>, writes \<open>e\<close> into
  \<open>g_last_error\<close> and returns \<open>ERR_FAILURE\<close> from the enclosing operation: whatever
  statements precede it (as long as control reaches the call) and whatever statements
  follow it, the operation's result is \<open>ERR_FAILURE\<close>, \<open>g_last_error\<close> is \<open>e\<close>, and the
  final state is the one the call left, with only the macro's own writes on top. This
  holds for every code \<open>e\<close> (in particular for every \<open>e \<noteq> ERR_NONE\<close>) and in both
  builds.
\<close>

theorem check_failure_records_and_returns:
  assumes "run_body pre s = Continue s0"
    and "fst (call s0) = 0"
  shows "operation (pre @ CHECK rt call (lit e) # rest) final s =
           (ERR_FAILURE,
            if rt then (snd (call s0))\<lparr>g_last_error := e, g_inject_error_flag := 0\<rparr>
            else (snd (call s0))\<lparr>g_last_error := e\<rparr>)
         \<and> fst (operation (pre @ CHECK rt call (lit e) # rest) final s) = ERR_FAILURE
         \<and> g_last_error (snd (operation (pre @ CHECK rt call (lit e) # rest) final s)) = e"
proof -
  have "run_body (pre @ CHECK rt call (lit e) # rest) s =
          run_body (CHECK rt call (lit e) # rest) s0"
    using assms(1) by (rule run_body_append_Continue)
  moreover have "CHECK rt call (lit e) s0 =
      Returned ERR_FAILURE
        (if rt then (snd (call s0))\<lparr>g_last_error := e, g_inject_error_flag := 0\<rparr>
         else (snd (call s0))\<lparr>g_last_error := e\<rparr>)"
    using assms(2) CHECK_failure [of call s0 rt "lit e"] by (simp add: lit_def)
  ultimately show ?thesis
    by (simp add: operation_def)
qed

theorem check_failure_records_and_returns_witness:
  "run_body [CHECK_SAME False i2c_write] startup_i2c_group =
     Continue (printf ''I2C write  -> OK'' startup_i2c_group)
   \<and> fst (i2c_read (printf ''I2C write  -> OK'' startup_i2c_group)) = 0
   \<and> bus_init startup_i2c_group =
       (0xFF, \<lparr>g_last_error = 1, g_current_error_group = 1, g_inject_error_flag = 0,
               world = [''I2C write  -> OK'', ''I2C read   -> FAILED'']\<rparr>)"
proof -
  have h1: "run_body [CHECK_SAME False i2c_write] startup_i2c_group =
              Continue (printf ''I2C write  -> OK'' startup_i2c_group)"
    by (simp add: macro_defs example_defs)
  have h2: "fst (i2c_read (printf ''I2C write  -> OK'' startup_i2c_group)) = 0"
    by (simp add: example_defs)
  show ?thesis
    using h1 h2
      check_failure_records_and_returns [where pre = "[CHECK_SAME False i2c_write]"
        and s = startup_i2c_group and s0 = "printf ''I2C write  -> OK'' startup_i2c_group"
        and call = i2c_read and rt = False and e = ERR_I2C and final = ERR_NONE
        and rest = "[CHECK False spi_test (lit ERR_SPI), CHECK False uart_init (lit ERR_UART)]"]
    by (simp add: bus_init_def example_defs)
qed

text \<open>
  C2. Checks run in program order and the first failure wins. If the first of two
  consecutive checked calls has outcome zero, the enclosing body returns \<open>ERR_FAILURE\<close>
  at once with \<open>g_last_error = A\<close>: the result is built from the state the first call
  left and does not depend on the second call, its code \<open>B\<close>, or anything after it, so
  the second call is never evaluated and \<open>g_last_error\<close> is never \<open>B\<close>. If instead a
  check succeeds, the statements after it run in the state that call left behind.
\<close>

theorem first_failure_dominates:
  "(fst (c1 s) = 0 \<longrightarrow>
      run_body (CHECK rt c1 (lit A) # CHECK rt c2 (lit B) # rest) s =
        Returned ERR_FAILURE
          (if rt then (snd (c1 s))\<lparr>g_last_error := A, g_inject_error_flag := 0\<rparr>
           else (snd (c1 s))\<lparr>g_last_error := A\<rparr>)
      \<and> run_body (CHECK rt c1 (lit A) # CHECK rt c2 (lit B) # rest) s =
          run_body [CHECK rt c1 (lit A)] s
      \<and> g_last_error (flow_state (run_body (CHECK rt c1 (lit A) # CHECK rt c2 (lit B) # rest) s)) = A
      \<and> (A \<noteq> B \<longrightarrow>
          g_last_error (flow_state (run_body (CHECK rt c1 (lit A) # CHECK rt c2 (lit B) # rest) s)) \<noteq> B))
   \<and> (fst (d1 t) \<noteq> 0 \<longrightarrow> (rt \<longrightarrow> g_inject_error_flag (snd (d1 t)) \<noteq> A) \<longrightarrow>
      run_body (CHECK rt d1 (lit A) # later) t = run_body later (snd (d1 t)))"
proof (intro conjI impI)
  assume z: "fst (c1 s) = 0"
  have first: "CHECK rt c1 (lit A) s =
      Returned ERR_FAILURE
        (if rt then (snd (c1 s))\<lparr>g_last_error := A, g_inject_error_flag := 0\<rparr>
         else (snd (c1 s))\<lparr>g_last_error := A\<rparr>)"
    using z CHECK_failure [of c1 s rt "lit A"] by (simp add: lit_def)
  show r: "run_body (CHECK rt c1 (lit A) # CHECK rt c2 (lit B) # rest) s =
        Returned ERR_FAILURE
          (if rt then (snd (c1 s))\<lparr>g_last_error := A, g_inject_error_flag := 0\<rparr>
           else (snd (c1 s))\<lparr>g_last_error := A\<rparr>)"
    using first by simp
  show "run_body (CHECK rt c1 (lit A) # CHECK rt c2 (lit B) # rest) s =
          run_body [CHECK rt c1 (lit A)] s"
    using first by simp
  show a: "g_last_error (flow_state (run_body (CHECK rt c1 (lit A) # CHECK rt c2 (lit B) # rest) s)) = A"
    unfolding r by simp
  show "g_last_error (flow_state (run_body (CHECK rt c1 (lit A) # CHECK rt c2 (lit B) # rest) s)) \<noteq> B"
    if "A \<noteq> B"
    using that a by simp
next
  assume "fst (d1 t) \<noteq> 0" and "rt \<longrightarrow> g_inject_error_flag (snd (d1 t)) \<noteq> A"
  then have "CHECK rt d1 (lit A) t = Continue (snd (d1 t))"
    using CHECK_success [of d1 t rt "lit A"] by (simp add: lit_def)
  then show "run_body (CHECK rt d1 (lit A) # later) t = run_body later (snd (d1 t))"
    by simp
qed

theorem first_failure_dominates_witness:
  "fst (i2c_read startup) = 0
   \<and> run_body [CHECK False i2c_read (lit ERR_I2C), CHECK False i2c_read (lit ERR_SPI)] startup =
       Returned 0xFF \<lparr>g_last_error = 1, g_current_error_group = 0, g_inject_error_flag = 0,
                      world = [''I2C read   -> FAILED'']\<rparr>
   \<and> fst (i2c_write startup) \<noteq> 0
   \<and> run_body [CHECK False i2c_write (lit ERR_I2C), CHECK False i2c_read (lit ERR_SPI)] startup =
       Returned 0xFF \<lparr>g_last_error = 2, g_current_error_group = 0, g_inject_error_flag = 0,
                      world = [''I2C write  -> OK'', ''I2C read   -> FAILED'']\<rparr>"
  using first_failure_dominates [where ?c1.0 = i2c_read and s = startup and rt = False
      and A = ERR_I2C and ?c2.0 = i2c_read and B = ERR_SPI and rest = "[]"
      and ?d1.0 = i2c_write and t = startup and later = "[CHECK False i2c_read (lit ERR_SPI)]"]
  by (simp add: macro_defs example_defs)

text \<open>
  C3. With runtime injection compiled in, the failure test of a checked call is the
  disjunction of "the real outcome is zero" and "\<open>g_inject_error_flag\<close> equals this call's
  code". The call is evaluated exactly once whether or not injection is armed: the state
  after the check is the state one evaluation of the call left, with at most the macro's
  two writes on top. When the test is true, \<open>g_last_error\<close> becomes the call's code,
  \<open>g_inject_error_flag\<close> becomes 0, and the enclosing body returns \<open>ERR_FAILURE\<close>.
\<close>

theorem runtime_injection_failure_test:
  "CHECK True call (lit e) s =
     (if fst (call s) = 0 \<or> g_inject_error_flag (snd (call s)) = e
      then Returned ERR_FAILURE ((snd (call s))\<lparr>g_last_error := e, g_inject_error_flag := 0\<rparr>)
      else Continue (snd (call s)))
   \<and> world (flow_state (CHECK True call (lit e) s)) = world (snd (call s))
   \<and> run_body (CHECK True call (lit e) # rest) s =
       (if fst (call s) = 0 \<or> g_inject_error_flag (snd (call s)) = e
        then Returned ERR_FAILURE ((snd (call s))\<lparr>g_last_error := e, g_inject_error_flag := 0\<rparr>)
        else run_body rest (snd (call s)))"
  by (simp add: CHECK_inj_unfold lit_def)

theorem runtime_injection_failure_test_witness:
  "fst (radio_start (startup\<lparr>g_inject_error_flag := ERR_RADIO\<rparr>)) = 1
   \<and> CHECK True radio_start (lit ERR_RADIO) (startup\<lparr>g_inject_error_flag := ERR_RADIO\<rparr>) =
       Returned 0xFF \<lparr>g_last_error = 1, g_current_error_group = 0, g_inject_error_flag = 0,
                      world = [''Radio hardware start -> normally would succeed'']\<rparr>
   \<and> init_runtime (startup\<lparr>g_inject_error_flag := ERR_RADIO\<rparr>) =
       (0xFF, \<lparr>g_last_error = 1, g_current_error_group = 0, g_inject_error_flag = 0,
               world = [''Starting initialization...'',
                        ''Radio hardware start -> normally would succeed'']\<rparr>)
   \<and> init_runtime startup =
       (0, \<lparr>g_last_error = 0, g_current_error_group = 0, g_inject_error_flag = 0,
            world = [''Starting initialization...'',
                     ''Radio hardware start -> normally would succeed'',
                     ''Radio initialized successfully!'']\<rparr>)"
  using runtime_injection_failure_test [where call = radio_start and e = ERR_RADIO
      and s = "startup\<lparr>g_inject_error_flag := ERR_RADIO\<rparr>" and rest = "[]"]
  by (simp add: init_runtime_def macro_defs example_defs)

text \<open>
  C4. The specification asks for a one-shot trigger: arming \<open>g_inject_error_flag\<close> with
  a code \<open>X \<noteq> ERR_NONE\<close> forces exactly one later check with code \<open>X\<close> to fail, the
  trigger is consumed at the instant it fires, and a check with another code \<open>Y \<noteq> X\<close> is
  not affected, nor does it affect the trigger. The header's own documentation says the
  same: "The next CHECK with ERR_RADIO will instantly fail" (README and the head of
  \<^verbatim>\<open>fault_injection_runtime.c\<close>).

  The macro does not do this. Its assignment \<^verbatim>\<open>g_inject_error_flag = 0\<close> stands in
  the branch that real failures share, so a check with another code that really fails
  consumes the trigger without it firing. At the input below the trigger is armed with
  \<open>ERR_RADIO\<close>; \<^verbatim>\<open>CHECK(i2c_read(), ERR_UART)\<close> fails for real, returns \<open>ERR_FAILURE\<close>
  and leaves the trigger at 0; the example's \<^verbatim>\<open>init()\<close>, whose only check has code
  \<open>ERR_RADIO\<close>, then runs to its end and returns \<open>ERR_NONE\<close>: the arming forced no
  failure at all.
\<close>

theorem armed_trigger_lost_on_unrelated_failure:
  "g_inject_error_flag (startup\<lparr>g_inject_error_flag := ERR_RADIO\<rparr>) = ERR_RADIO
   \<and> ERR_RADIO \<noteq> ERR_NONE \<and> ERR_UART \<noteq> ERR_RADIO
   \<and> CHECK True i2c_read (lit ERR_UART) (startup\<lparr>g_inject_error_flag := ERR_RADIO\<rparr>) =
       Returned ERR_FAILURE
         \<lparr>g_last_error = ERR_UART, g_current_error_group = 0, g_inject_error_flag = 0,
           world = [''I2C read   -> FAILED'']\<rparr>
   \<and> g_inject_error_flag
        (flow_state (CHECK True i2c_read (lit ERR_UART) (startup\<lparr>g_inject_error_flag := ERR_RADIO\<rparr>)))
       \<noteq> g_inject_error_flag (startup\<lparr>g_inject_error_flag := ERR_RADIO\<rparr>)
   \<and> fst (radio_start (flow_state
        (CHECK True i2c_read (lit ERR_UART) (startup\<lparr>g_inject_error_flag := ERR_RADIO\<rparr>)))) = 1
   \<and> returned_value (CHECK True radio_start (lit ERR_RADIO) (flow_state
        (CHECK True i2c_read (lit ERR_UART) (startup\<lparr>g_inject_error_flag := ERR_RADIO\<rparr>)))) = None
   \<and> init_runtime (flow_state
        (CHECK True i2c_read (lit ERR_UART) (startup\<lparr>g_inject_error_flag := ERR_RADIO\<rparr>))) =
       (ERR_NONE,
        \<lparr>g_last_error = ERR_UART, g_current_error_group = 0, g_inject_error_flag = 0,
          world = [''I2C read   -> FAILED'', ''Starting initialization...'',
                   ''Radio hardware start -> normally would succeed'',
                   ''Radio initialized successfully!'']\<rparr>)"
  by (simp add: init_runtime_def macro_defs example_defs)

text \<open>
  What the macro does keep of the one-shot contract: the check with code \<open>X\<close> that finds
  the trigger armed fails whatever its call returns and resets the trigger; a second
  check with code \<open>X \<noteq> ERR_NONE\<close> after it is the plain protocol; a check with a code
  \<open>Y \<noteq> X\<close> returns what the plain protocol returns, with the same \<open>g_last_error\<close> and
  the same effects of its call, and when its call succeeds the trigger stays armed.
\<close>

lemma armed_trigger_fires_when_matched:
  "(g_inject_error_flag (snd (call s)) = X \<longrightarrow>
      CHECK True call (lit X) s =
        Returned ERR_FAILURE ((snd (call s))\<lparr>g_last_error := X, g_inject_error_flag := 0\<rparr>)
      \<and> g_inject_error_flag (flow_state (CHECK True call (lit X) s)) = 0
      \<and> (X \<noteq> 0 \<longrightarrow>
          g_inject_error_flag
            (snd (call2 ((snd (call s))\<lparr>g_last_error := X, g_inject_error_flag := 0\<rparr>))) = 0 \<longrightarrow>
            CHECK True call2 (lit X) ((snd (call s))\<lparr>g_last_error := X, g_inject_error_flag := 0\<rparr>) =
            CHECK False call2 (lit X) ((snd (call s))\<lparr>g_last_error := X, g_inject_error_flag := 0\<rparr>)))
   \<and> (Y \<noteq> X \<longrightarrow> g_inject_error_flag (snd (call3 u)) = X \<longrightarrow>
        returned_value (CHECK True call3 (lit Y) u) = returned_value (CHECK False call3 (lit Y) u)
        \<and> g_last_error (flow_state (CHECK True call3 (lit Y) u)) =
            g_last_error (flow_state (CHECK False call3 (lit Y) u))
        \<and> world (flow_state (CHECK True call3 (lit Y) u)) =
            world (flow_state (CHECK False call3 (lit Y) u))
        \<and> (fst (call3 u) \<noteq> 0 \<longrightarrow>
            CHECK True call3 (lit Y) u = Continue (snd (call3 u))
            \<and> g_inject_error_flag (flow_state (CHECK True call3 (lit Y) u)) = X))"
proof (intro conjI impI)
  assume armed: "g_inject_error_flag (snd (call s)) = X"
  show fired: "CHECK True call (lit X) s =
      Returned ERR_FAILURE ((snd (call s))\<lparr>g_last_error := X, g_inject_error_flag := 0\<rparr>)"
    using armed by (simp add: CHECK_inj_unfold lit_def)
  show "g_inject_error_flag (flow_state (CHECK True call (lit X) s)) = 0"
    unfolding fired by simp
next
  let ?t = "(snd (call s))\<lparr>g_last_error := X, g_inject_error_flag := 0\<rparr>"
  assume "X \<noteq> 0" and unarmed: "g_inject_error_flag (snd (call2 ?t)) = 0"
  then have "CHECK True call2 (lit X) ?t =
      (if fst (call2 ?t) = 0
       then Returned ERR_FAILURE ((snd (call2 ?t))\<lparr>g_last_error := X, g_inject_error_flag := 0\<rparr>)
       else Continue (snd (call2 ?t)))"
    by (simp add: CHECK_inj_unfold lit_def)
  also have "\<dots> = CHECK False call2 (lit X) ?t"
    using clear_unarmed_flag [OF unarmed, of X] by (simp add: CHECK_std_unfold lit_def)
  finally show "CHECK True call2 (lit X) ?t = CHECK False call2 (lit X) ?t" .
next
  assume other: "Y \<noteq> X" and armed: "g_inject_error_flag (snd (call3 u)) = X"
  have inj: "CHECK True call3 (lit Y) u =
      (if fst (call3 u) = 0
       then Returned ERR_FAILURE ((snd (call3 u))\<lparr>g_last_error := Y, g_inject_error_flag := 0\<rparr>)
       else Continue (snd (call3 u)))"
    using other armed by (auto simp: CHECK_inj_unfold lit_def)
  have std: "CHECK False call3 (lit Y) u =
      (if fst (call3 u) = 0
       then Returned ERR_FAILURE ((snd (call3 u))\<lparr>g_last_error := Y\<rparr>)
       else Continue (snd (call3 u)))"
    by (simp add: CHECK_std_unfold lit_def)
  show "returned_value (CHECK True call3 (lit Y) u) = returned_value (CHECK False call3 (lit Y) u)"
    unfolding inj std by simp
  show "g_last_error (flow_state (CHECK True call3 (lit Y) u)) =
        g_last_error (flow_state (CHECK False call3 (lit Y) u))"
    unfolding inj std by simp
  show "world (flow_state (CHECK True call3 (lit Y) u)) =
        world (flow_state (CHECK False call3 (lit Y) u))"
    unfolding inj std by simp
  show "CHECK True call3 (lit Y) u = Continue (snd (call3 u))" if "fst (call3 u) \<noteq> 0"
    using that inj by simp
  show "g_inject_error_flag (flow_state (CHECK True call3 (lit Y) u)) = X" if "fst (call3 u) \<noteq> 0"
    using that inj armed by simp
qed

lemma armed_trigger_fires_when_matched_example:
  "g_inject_error_flag (snd (radio_start (startup\<lparr>g_inject_error_flag := ERR_RADIO\<rparr>))) = ERR_RADIO
   \<and> ERR_RADIO \<noteq> 0 \<and> ERR_SPI \<noteq> ERR_RADIO
   \<and> fst (radio_start (startup\<lparr>g_inject_error_flag := ERR_RADIO\<rparr>)) \<noteq> 0
   \<and> CHECK True radio_start (lit ERR_RADIO) (startup\<lparr>g_inject_error_flag := ERR_RADIO\<rparr>) =
       Returned 0xFF \<lparr>g_last_error = 1, g_current_error_group = 0, g_inject_error_flag = 0,
                      world = [''Radio hardware start -> normally would succeed'']\<rparr>
   \<and> CHECK True radio_start (lit ERR_RADIO)
        \<lparr>g_last_error = 1, g_current_error_group = 0, g_inject_error_flag = 0,
          world = [''Radio hardware start -> normally would succeed'']\<rparr> =
       Continue \<lparr>g_last_error = 1, g_current_error_group = 0, g_inject_error_flag = 0,
                 world = [''Radio hardware start -> normally would succeed'',
                          ''Radio hardware start -> normally would succeed'']\<rparr>
   \<and> CHECK True spi_test (lit ERR_SPI) (startup\<lparr>g_inject_error_flag := ERR_RADIO\<rparr>) =
       Continue \<lparr>g_last_error = 0, g_current_error_group = 0, g_inject_error_flag = 1,
                 world = [''SPI test   -> OK'']\<rparr>"
  using armed_trigger_fires_when_matched [where call = radio_start and X = ERR_RADIO
      and s = "startup\<lparr>g_inject_error_flag := ERR_RADIO\<rparr>" and ?call2.0 = radio_start
      and Y = ERR_SPI and ?call3.0 = spi_test
      and u = "startup\<lparr>g_inject_error_flag := ERR_RADIO\<rparr>"]
  by (simp add: macro_defs example_defs)

text \<open>
  C5. In a build without runtime injection only an outcome of exactly zero is a failure.
  For every nonzero outcome of the call, however obtained, the plain \<open>CHECK\<close> falls
  through: the enclosing body goes on with its next statement, in exactly the state the
  call left, so the macro itself writes nothing and \<open>g_last_error\<close> is what it was when
  the call finished (and what it was before the check, if the call does not write it).
  In a runtime-injection build the same holds whenever the trigger does not hold this
  call's code at the moment the macro tests it.

  Without that restriction the statement fails: the second operand of the macro's
  \<^verbatim>\<open>||\<close> sends a call with a nonzero outcome into the failure branch when the trigger
  equals its code. Below, \<^verbatim>\<open>spi_test()\<close> returns 1 while the trigger holds \<open>ERR_SPI\<close>;
  the check returns \<open>ERR_FAILURE\<close> and overwrites \<open>g_last_error\<close>.
\<close>

theorem nonzero_outcome_is_success:
  assumes "fst (call s) \<noteq> 0"
  shows "CHECK False call (lit e) s = Continue (snd (call s))
         \<and> run_body (CHECK False call (lit e) # rest) s = run_body rest (snd (call s))
         \<and> g_last_error (flow_state (CHECK False call (lit e) s)) = g_last_error (snd (call s))
         \<and> (g_last_error (snd (call s)) = g_last_error s \<longrightarrow>
              g_last_error (flow_state (CHECK False call (lit e) s)) = g_last_error s)
         \<and> (g_inject_error_flag (snd (call s)) \<noteq> e \<longrightarrow>
              CHECK True call (lit e) s = Continue (snd (call s)))"
proof -
  have std: "CHECK False call (lit e) s = Continue (snd (call s))"
    using assms by (simp add: CHECK_std_unfold)
  have inj: "CHECK True call (lit e) s = Continue (snd (call s))"
    if "g_inject_error_flag (snd (call s)) \<noteq> e"
    using assms that by (simp add: CHECK_inj_unfold lit_def)
  show ?thesis
    using std inj by simp
qed

theorem nonzero_outcome_is_success_witness:
  "fst (const_outcome (- 1) (startup\<lparr>g_last_error := ERR_I2C\<rparr>)) \<noteq> 0
   \<and> CHECK False (const_outcome (- 1)) (lit ERR_SPI) (startup\<lparr>g_last_error := ERR_I2C\<rparr>) =
       Continue \<lparr>g_last_error = 1, g_current_error_group = 0, g_inject_error_flag = 0,
                 world = []\<rparr>
   \<and> CHECK True (const_outcome (- 1)) (lit ERR_SPI) (startup\<lparr>g_last_error := ERR_I2C\<rparr>) =
       Continue \<lparr>g_last_error = 1, g_current_error_group = 0, g_inject_error_flag = 0,
                 world = []\<rparr>"
proof -
  have h: "fst (const_outcome (- 1) (startup\<lparr>g_last_error := ERR_I2C\<rparr>)) \<noteq> 0"
    by (simp add: const_outcome_def)
  show ?thesis
    using h nonzero_outcome_is_success [where call = "const_outcome (- 1)"
        and s = "startup\<lparr>g_last_error := ERR_I2C\<rparr>" and e = ERR_SPI and rest = "[]"]
    by (simp add: example_defs)
qed

theorem nonzero_outcome_is_success_counterexample:
  "fst (spi_test (startup\<lparr>g_last_error := ERR_I2C, g_inject_error_flag := ERR_SPI\<rparr>)) \<noteq> 0
   \<and> CHECK True spi_test (lit ERR_SPI)
        (startup\<lparr>g_last_error := ERR_I2C, g_inject_error_flag := ERR_SPI\<rparr>) =
       Returned ERR_FAILURE
         \<lparr>g_last_error = ERR_SPI, g_current_error_group = 0, g_inject_error_flag = 0,
           world = [''SPI test   -> OK'']\<rparr>
   \<and> g_last_error (flow_state (CHECK True spi_test (lit ERR_SPI)
        (startup\<lparr>g_last_error := ERR_I2C, g_inject_error_flag := ERR_SPI\<rparr>))) \<noteq>
       g_last_error (snd (spi_test
        (startup\<lparr>g_last_error := ERR_I2C, g_inject_error_flag := ERR_SPI\<rparr>)))
   \<and> run_body [CHECK True spi_test (lit ERR_SPI), CHECK True uart_init (lit ERR_UART)]
        (startup\<lparr>g_last_error := ERR_I2C, g_inject_error_flag := ERR_SPI\<rparr>) =
       Returned ERR_FAILURE
         \<lparr>g_last_error = ERR_SPI, g_current_error_group = 0, g_inject_error_flag = 0,
           world = [''SPI test   -> OK'']\<rparr>"
  by (simp add: macro_defs example_defs)

text \<open>
  C6. \<open>CHECK_SAME\<close> is \<open>CHECK\<close> with the code read from \<open>g_current_error_group\<close>: it
  behaves as a \<open>CHECK\<close> whose site code is the group's value at the moment the macro
  reads it. With the group equal to \<open>G\<close> and left alone by the calls, three grouped
  calls of which the first succeeds and the second fails make the enclosing body return
  \<open>ERR_FAILURE\<close> with \<open>g_last_error = G\<close>; the result is that of the first two checks
  alone, so the third call is never evaluated.
\<close>

theorem check_same_uses_error_group:
  "CHECK_SAME rt call s = CHECK rt call (lit (g_current_error_group (snd (call s)))) s
   \<and> (g_current_error_group s = G \<longrightarrow> fst (c1 s) \<noteq> 0 \<longrightarrow> fst (c2 (snd (c1 s))) = 0 \<longrightarrow>
       g_current_error_group (snd (c1 s)) = g_current_error_group s \<longrightarrow>
       g_current_error_group (snd (c2 (snd (c1 s)))) = g_current_error_group (snd (c1 s)) \<longrightarrow>
         run_body (CHECK_SAME rt c1 # CHECK_SAME rt c2 # CHECK_SAME rt c3 # rest) s =
           run_body [CHECK_SAME rt c1, CHECK_SAME rt c2] s
         \<and> returned_value
             (run_body (CHECK_SAME rt c1 # CHECK_SAME rt c2 # CHECK_SAME rt c3 # rest) s) =
             Some ERR_FAILURE
         \<and> g_last_error (flow_state
             (run_body (CHECK_SAME rt c1 # CHECK_SAME rt c2 # CHECK_SAME rt c3 # rest) s)) = G
         \<and> (\<not> rt \<longrightarrow>
             run_body (CHECK_SAME rt c1 # CHECK_SAME rt c2 # CHECK_SAME rt c3 # rest) s =
               Returned ERR_FAILURE ((snd (c2 (snd (c1 s))))\<lparr>g_last_error := G\<rparr>)))"
proof (intro conjI impI)
  show "CHECK_SAME rt call s = CHECK rt call (lit (g_current_error_group (snd (call s)))) s"
    by (cases rt) (simp_all add: CHECK_SAME_def CHECK_std_unfold CHECK_inj_unfold lit_def)
next
  assume g: "g_current_error_group s = G"
    and ok1: "fst (c1 s) \<noteq> 0"
    and ko2: "fst (c2 (snd (c1 s))) = 0"
    and p1: "g_current_error_group (snd (c1 s)) = g_current_error_group s"
    and p2: "g_current_error_group (snd (c2 (snd (c1 s)))) = g_current_error_group (snd (c1 s))"
  let ?r = "run_body (CHECK_SAME rt c1 # CHECK_SAME rt c2 # CHECK_SAME rt c3 # rest) s"
  have second: "\<exists>s'. CHECK_SAME rt c2 (snd (c1 s)) = Returned ERR_FAILURE s' \<and> g_last_error s' = G"
    using ko2 g p1 p2 CHECK_failure [of c2 "snd (c1 s)" rt g_current_error_group]
    by (cases rt) (simp_all add: CHECK_SAME_def)
  have first: "CHECK_SAME rt c1 s = Continue (snd (c1 s))
               \<or> (\<exists>s'. CHECK_SAME rt c1 s = Returned ERR_FAILURE s' \<and> g_last_error s' = G)"
    using ok1 g p1
    by (cases rt) (simp_all add: CHECK_SAME_def CHECK_std_unfold CHECK_inj_unfold)
  show "?r = run_body [CHECK_SAME rt c1, CHECK_SAME rt c2] s"
    using first second by auto
  show "returned_value ?r = Some ERR_FAILURE"
    using first second by auto
  show "g_last_error (flow_state ?r) = G"
    using first second by auto
  show "?r = Returned ERR_FAILURE ((snd (c2 (snd (c1 s))))\<lparr>g_last_error := G\<rparr>)" if "\<not> rt"
    using that ok1 ko2 g p1 p2 by (simp add: CHECK_SAME_def CHECK_std_unfold)
qed

theorem check_same_uses_error_group_witness:
  "g_current_error_group startup_i2c_group = ERR_I2C
   \<and> fst (i2c_write startup_i2c_group) \<noteq> 0
   \<and> fst (i2c_read (snd (i2c_write startup_i2c_group))) = 0
   \<and> run_body [CHECK_SAME False i2c_write, CHECK_SAME False i2c_read, CHECK_SAME False spi_test]
        startup_i2c_group =
       Returned 0xFF \<lparr>g_last_error = 1, g_current_error_group = 1, g_inject_error_flag = 0,
                      world = [''I2C write  -> OK'', ''I2C read   -> FAILED'']\<rparr>"
  using check_same_uses_error_group [where rt = False and G = ERR_I2C and s = startup_i2c_group
      and ?c1.0 = i2c_write and ?c2.0 = i2c_read and ?c3.0 = spi_test and rest = "[]"]
  by (simp add: macro_defs example_defs)

text \<open>
  C7. In a build with \<open>INJECT_ERR_SENSOR\<close> defined, the tagged call site
  \<open>CHECK_SENSOR(call)\<close> returns \<open>ERR_FAILURE\<close> with \<open>g_last_error = ERR_SENSOR\<close>
  whatever the real call would do: the call expression is replaced by the constant 0
  and is not evaluated, so the result does not mention it. In a build without the flag
  the same call site is the ordinary \<open>CHECK(call, ERR_SENSOR)\<close>.
\<close>

theorem build_time_injection_forces_failure:
  "CHECK_SENSOR rt True call s =
     Returned ERR_FAILURE
       (if rt then s\<lparr>g_last_error := ERR_SENSOR, g_inject_error_flag := 0\<rparr>
        else s\<lparr>g_last_error := ERR_SENSOR\<rparr>)
   \<and> run_body (CHECK_SENSOR rt True call # rest) s =
       Returned ERR_FAILURE
         (if rt then s\<lparr>g_last_error := ERR_SENSOR, g_inject_error_flag := 0\<rparr>
          else s\<lparr>g_last_error := ERR_SENSOR\<rparr>)
   \<and> fst (operation (CHECK_SENSOR rt True call # rest) final s) = ERR_FAILURE
   \<and> g_last_error (snd (operation (CHECK_SENSOR rt True call # rest) final s)) = ERR_SENSOR
   \<and> CHECK_SENSOR rt False call = CHECK rt call (lit ERR_SENSOR)"
proof -
  have forced: "CHECK_SENSOR rt True call s =
     Returned ERR_FAILURE
       (if rt then s\<lparr>g_last_error := ERR_SENSOR, g_inject_error_flag := 0\<rparr>
        else s\<lparr>g_last_error := ERR_SENSOR\<rparr>)"
    using CHECK_failure [of "const_outcome 0" s rt "lit ERR_SENSOR"]
    by (simp add: CHECK_SENSOR_def const_outcome_def lit_def)
  have absent: "CHECK_SENSOR rt False call = CHECK rt call (lit ERR_SENSOR)"
    by (simp add: CHECK_SENSOR_def)
  show ?thesis
    using forced absent by (simp add: operation_def)
qed

theorem build_time_injection_forces_failure_witness:
  "fst (calibrate_imu startup) = 1
   \<and> init_compile_time True startup =
       (0xFF, \<lparr>g_last_error = 1, g_current_error_group = 0, g_inject_error_flag = 0,
               world = [''Starting initialization with fault injection test...'']\<rparr>)
   \<and> init_compile_time False startup =
       (0, \<lparr>g_last_error = 0, g_current_error_group = 0, g_inject_error_flag = 0,
            world = [''Starting initialization with fault injection test...'',
                     ''IMU calibration: would normally pass'',
                     ''IMU calibration successful!'']\<rparr>)"
  using build_time_injection_forces_failure [where rt = False and call = calibrate_imu
      and s = "printf ''Starting initialization with fault injection test...'' startup"
      and rest = "[printf_stmt ''IMU calibration successful!'']" and final = ERR_NONE]
  by (simp add: init_compile_time_def macro_defs example_defs)

text \<open>
  C8. \<open>RETURN_ERR(e)\<close> takes no call outcome: for every code \<open>e\<close> and every state it
  writes \<open>e\<close> into \<open>g_last_error\<close> and returns \<open>ERR_FAILURE\<close> from the enclosing
  operation. The statements after it never run: the result does not depend on them.
\<close>

theorem return_err_unconditional:
  "RETURN_ERR (lit e) s = Returned ERR_FAILURE (s\<lparr>g_last_error := e\<rparr>)
   \<and> run_body (RETURN_ERR (lit e) # rest) s = Returned ERR_FAILURE (s\<lparr>g_last_error := e\<rparr>)
   \<and> operation (RETURN_ERR (lit e) # rest) final s = (ERR_FAILURE, s\<lparr>g_last_error := e\<rparr>)
   \<and> (run_body pre s = Continue s0 \<longrightarrow>
        operation (pre @ RETURN_ERR (lit e) # rest) final s =
          (ERR_FAILURE, s0\<lparr>g_last_error := e\<rparr>))"
proof -
  have one: "RETURN_ERR (lit e) x = Returned ERR_FAILURE (x\<lparr>g_last_error := e\<rparr>)" for x :: "'a globals"
    by (simp add: RETURN_ERR_def lit_def)
  have "operation (pre @ RETURN_ERR (lit e) # rest) final s = (ERR_FAILURE, s0\<lparr>g_last_error := e\<rparr>)"
    if "run_body pre s = Continue s0"
    using run_body_append_Continue [OF that, of "RETURN_ERR (lit e) # rest"] one [of s0]
    by (simp add: operation_def)
  then show ?thesis
    using one [of s] by (simp add: operation_def)
qed

theorem return_err_unconditional_witness:
  "run_body [CHECK False i2c_write (lit ERR_I2C)] startup =
     Continue (printf ''I2C write  -> OK'' startup)
   \<and> operation ([CHECK False i2c_write (lit ERR_I2C)] @ RETURN_ERR (lit ERR_TIMEOUT) #
                 [CHECK False spi_test (lit ERR_SPI)]) ERR_NONE startup =
       (0xFF, \<lparr>g_last_error = 4, g_current_error_group = 0, g_inject_error_flag = 0,
               world = [''I2C write  -> OK'']\<rparr>)"
  using return_err_unconditional [where pre = "[CHECK False i2c_write (lit ERR_I2C)]"
      and s = startup and ?s0.0 = "printf ''I2C write  -> OK'' startup" and e = ERR_TIMEOUT
      and rest = "[CHECK False spi_test (lit ERR_SPI)]" and final = ERR_NONE]
  by (simp add: macro_defs example_defs)

text \<open>
  C9. With runtime injection compiled in, every checked call that takes the failure
  branch leaves \<open>g_inject_error_flag\<close> at 0, also when the failure is the call's real
  outcome and the trigger held another code. So a trigger armed with \<open>X\<close> is cleared by
  a check that really fails with a code \<open>Y \<noteq> X\<close>, and a later check with code \<open>X\<close>
  whose call succeeds (and leaves the flag alone) falls through: the arming never
  forced a failure.
\<close>

theorem failure_branch_always_clears_trigger:
  "(CHECK True call err s = Returned v s' \<longrightarrow> v = ERR_FAILURE \<and> g_inject_error_flag s' = 0)
   \<and> (fst (c u) = 0 \<longrightarrow> g_inject_error_flag (snd (c u)) = X \<longrightarrow> Y \<noteq> X \<longrightarrow>
        CHECK True c (lit Y) u =
          Returned ERR_FAILURE ((snd (c u))\<lparr>g_last_error := Y, g_inject_error_flag := 0\<rparr>)
        \<and> (X \<noteq> 0 \<longrightarrow>
            fst (c2 ((snd (c u))\<lparr>g_last_error := Y, g_inject_error_flag := 0\<rparr>)) \<noteq> 0 \<longrightarrow>
            g_inject_error_flag (snd (c2 ((snd (c u))\<lparr>g_last_error := Y, g_inject_error_flag := 0\<rparr>))) = 0 \<longrightarrow>
              CHECK True c2 (lit X) ((snd (c u))\<lparr>g_last_error := Y, g_inject_error_flag := 0\<rparr>) =
                Continue (snd (c2 ((snd (c u))\<lparr>g_last_error := Y, g_inject_error_flag := 0\<rparr>)))))"
proof (intro conjI impI)
  assume "CHECK True call err s = Returned v s'"
  then show "v = ERR_FAILURE" and "g_inject_error_flag s' = 0"
    by (auto simp: CHECK_inj_unfold split: if_splits)
next
  assume "fst (c u) = 0"
  then show "CHECK True c (lit Y) u =
      Returned ERR_FAILURE ((snd (c u))\<lparr>g_last_error := Y, g_inject_error_flag := 0\<rparr>)"
    by (simp add: CHECK_inj_unfold lit_def)
next
  let ?t = "(snd (c u))\<lparr>g_last_error := Y, g_inject_error_flag := 0\<rparr>"
  assume "X \<noteq> 0" and "fst (c2 ?t) \<noteq> 0" and "g_inject_error_flag (snd (c2 ?t)) = 0"
  then show "CHECK True c2 (lit X) ?t = Continue (snd (c2 ?t))"
    by (simp add: CHECK_inj_unfold lit_def)
qed

theorem failure_branch_always_clears_trigger_witness:
  "CHECK True i2c_read (lit ERR_SPI) (startup\<lparr>g_inject_error_flag := ERR_I2C\<rparr>) =
     Returned 0xFF \<lparr>g_last_error = 2, g_current_error_group = 0, g_inject_error_flag = 0,
                    world = [''I2C read   -> FAILED'']\<rparr>
   \<and> fst (i2c_read (startup\<lparr>g_inject_error_flag := ERR_I2C\<rparr>)) = 0
   \<and> g_inject_error_flag (snd (i2c_read (startup\<lparr>g_inject_error_flag := ERR_I2C\<rparr>))) = ERR_I2C
   \<and> ERR_SPI \<noteq> ERR_I2C \<and> ERR_I2C \<noteq> 0
   \<and> CHECK True i2c_write (lit ERR_I2C)
        \<lparr>g_last_error = 2, g_current_error_group = 0, g_inject_error_flag = 0,
          world = [''I2C read   -> FAILED'']\<rparr> =
       Continue \<lparr>g_last_error = 2, g_current_error_group = 0, g_inject_error_flag = 0,
                 world = [''I2C read   -> FAILED'', ''I2C write  -> OK'']\<rparr>"
  using failure_branch_always_clears_trigger [where call = i2c_read and err = "lit ERR_SPI"
      and s = "startup\<lparr>g_inject_error_flag := ERR_I2C\<rparr>" and v = "0xFF"
      and s' = "\<lparr>g_last_error = 2, g_current_error_group = 0, g_inject_error_flag = 0,
                  world = [''I2C read   -> FAILED'']\<rparr>"
      and c = i2c_read and u = "startup\<lparr>g_inject_error_flag := ERR_I2C\<rparr>"
      and X = ERR_I2C and Y = ERR_SPI and ?c2.0 = i2c_write]
  by (simp add: macro_defs example_defs)

text \<open>
  C10. With runtime injection compiled in, a checked call whose code is \<open>ERR_NONE\<close> (0)
  takes the failure branch whenever the trigger is unarmed (0 before the call, and the
  call leaves it alone), whatever the call's outcome: the unarmed flag compares equal to
  the code 0. \<open>g_last_error\<close> is set to 0 and the enclosing operation returns
  \<open>ERR_FAILURE\<close>.
\<close>

theorem code_none_fails_when_unarmed:
  assumes "g_inject_error_flag s = 0"
    and "g_inject_error_flag (snd (call s)) = g_inject_error_flag s"
  shows "CHECK True call (lit ERR_NONE) s =
           Returned ERR_FAILURE ((snd (call s))\<lparr>g_last_error := 0, g_inject_error_flag := 0\<rparr>)
         \<and> run_body (CHECK True call (lit ERR_NONE) # rest) s =
             Returned ERR_FAILURE ((snd (call s))\<lparr>g_last_error := 0, g_inject_error_flag := 0\<rparr>)
         \<and> fst (operation (CHECK True call (lit ERR_NONE) # rest) final s) = ERR_FAILURE
         \<and> g_last_error (snd (operation (CHECK True call (lit ERR_NONE) # rest) final s)) = 0"
proof -
  have "CHECK True call (lit ERR_NONE) s =
          Returned ERR_FAILURE ((snd (call s))\<lparr>g_last_error := 0, g_inject_error_flag := 0\<rparr>)"
    using assms by (simp add: CHECK_inj_unfold lit_def ERR_NONE_def)
  then show ?thesis
    by (simp add: operation_def)
qed

theorem code_none_fails_when_unarmed_witness:
  "g_inject_error_flag startup = 0
   \<and> g_inject_error_flag (snd (radio_start startup)) = g_inject_error_flag startup
   \<and> fst (radio_start startup) = 1
   \<and> operation [CHECK True radio_start (lit ERR_NONE),
                 printf_stmt ''Radio initialized successfully!''] ERR_NONE startup =
       (0xFF, \<lparr>g_last_error = 0, g_current_error_group = 0, g_inject_error_flag = 0,
               world = [''Radio hardware start -> normally would succeed'']\<rparr>)
   \<and> operation [CHECK False radio_start (lit ERR_NONE),
                 printf_stmt ''Radio initialized successfully!''] ERR_NONE startup =
       (0, \<lparr>g_last_error = 0, g_current_error_group = 0, g_inject_error_flag = 0,
            world = [''Radio hardware start -> normally would succeed'',
                     ''Radio initialized successfully!'']\<rparr>)"
proof -
  have h1: "g_inject_error_flag startup = 0"
    by (simp add: startup_def)
  have h2: "g_inject_error_flag (snd (radio_start startup)) = g_inject_error_flag startup"
    by (simp add: example_defs)
  show ?thesis
    using h1 h2
      code_none_fails_when_unarmed [where s = startup and call = radio_start
        and rest = "[printf_stmt ''Radio initialized successfully!'']" and final = ERR_NONE]
    by (simp add: macro_defs example_defs)
qed

end
